theory Spec2Isabelle
  imports Main "HOL-Library.AList"
begin

section \<open>WebPie request dispatch (src/webpie/WPApp.py)\<close>

text \<open>
  A shallow embedding of the dispatch core of \<^verbatim>\<open>WPApp.py\<close> under Python 3
  (\<^verbatim>\<open>PY3\<close> is true, \<^verbatim>\<open>PY2\<close> is false). Python strings and byte strings are
  HOL strings, a raised exception is the left injection of a sum, a dictionary is an
  association list in insertion order.
\<close>

subsection \<open>Strings\<close>

text \<open>\<^verbatim>\<open>s.split(c)\<close>: the pieces of \<open>s\<close> between the occurrences of \<open>c\<close>; never empty.\<close>

fun str_split :: "char \<Rightarrow> string \<Rightarrow> string list" where
  "str_split c [] = [[]]"
| "str_split c (x # xs) =
     (if x = c then [] # str_split c xs
      else (case str_split c xs of w # ws \<Rightarrow> (x # w) # ws | [] \<Rightarrow> [[x]]))"

text \<open>\<^verbatim>\<open>s.split(c, 1)\<close>: at most one cut, at the first occurrence of \<open>c\<close>.\<close>

definition str_split1 :: "char \<Rightarrow> string \<Rightarrow> string list" where
  "str_split1 c s =
     (case dropWhile (\<lambda>x. x \<noteq> c) s of
        [] \<Rightarrow> [s]
      | _ # r \<Rightarrow> [takeWhile (\<lambda>x. x \<noteq> c) s, r])"

text \<open>\<^verbatim>\<open>sep.join(ws)\<close>.\<close>

fun str_join :: "string \<Rightarrow> string list \<Rightarrow> string" where
  "str_join sep [] = []"
| "str_join sep [w] = w"
| "str_join sep (w # v # ws) = w @ sep @ str_join sep (v # ws)"

text \<open>\<^verbatim>\<open>s.endswith(t)\<close> and \<^verbatim>\<open>s.startswith(t)\<close>.\<close>

definition endswith :: "string \<Rightarrow> string \<Rightarrow> bool" where
  "endswith s t = (length t \<le> length s \<and> drop (length s - length t) s = t)"

definition startswith :: "string \<Rightarrow> string \<Rightarrow> bool" where
  "startswith s t = (take (length t) s = t)"

subsection \<open>Exceptions\<close>

text \<open>
  The exceptions that the modelled functions raise. \<open>HTTPFound\<close> carries its location;
  \<open>NameError\<close> carries the unbound identifier.
\<close>

datatype error =
    ValueError
  | TypeError
  | AttributeError
  | NameError string
  | HTTPFound string

subsection \<open>Query strings: \<^verbatim>\<open>WPApp.parseQuery\<close>\<close>

text \<open>
  The values stored in the result dictionary: a single value (\<^verbatim>\<open>None\<close> or a string)
  or a Python list of such values.
\<close>

datatype qvalue = Single "string option" | Multiple "string option list"

type_synonym qdict = "(string \<times> qvalue) list"

text \<open>
  One round of the loop body (lines 585-598). A new key is appended (a Python dictionary
  keeps insertion order), an old key is updated in place.
\<close>

definition parseQuery_step :: "qdict \<Rightarrow> string \<Rightarrow> qdict" where
  "parseQuery_step out w =
     (if w = [] then out
      else
        let words = str_split1 (CHR ''='') w;
            k = (case words of k # _ \<Rightarrow> k | [] \<Rightarrow> [])
        in if k = [] then out
           else
             let v = (if length words > 1 then Some (words ! 1) else None)
             in (case map_of out k of
                   Some old \<Rightarrow>
                     (let old' = (case old of Multiple vs \<Rightarrow> vs | Single x \<Rightarrow> [x])
                      in AList.update k (Multiple (old' @ [v])) out)
                 | None \<Rightarrow> out @ [(k, Single v)]))"

definition parseQuery :: "string option \<Rightarrow> qdict" where
  "parseQuery query =
     foldl parseQuery_step []
       (str_split (CHR ''&'') (case query of None \<Rightarrow> [] | Some q \<Rightarrow> q))"

text \<open>
  The reading of a query string that the specification gives: the \<open>&\<close>-separated words
  with a non-empty key, each as its key and its value (absent when the word has no
  \<open>=\<close>); the values of one key, in order; the keys in the order of their first
  occurrence.
\<close>

definition word_pairs :: "string list \<Rightarrow> (string \<times> string option) list" where
  "word_pairs ws =
     [(takeWhile (\<lambda>x. x \<noteq> CHR ''='') w,
       if CHR ''='' \<in> set w then Some (tl (dropWhile (\<lambda>x. x \<noteq> CHR ''='') w)) else None).
      w \<leftarrow> ws, takeWhile (\<lambda>x. x \<noteq> CHR ''='') w \<noteq> []]"

definition query_pairs :: "string \<Rightarrow> (string \<times> string option) list" where
  "query_pairs q = word_pairs (str_split (CHR ''&'') q)"

definition occurrences :: "string \<Rightarrow> (string \<times> string option) list \<Rightarrow> string option list" where
  "occurrences k ps = map snd (filter (\<lambda>p. fst p = k) ps)"

fun first_seen :: "string list \<Rightarrow> string list" where
  "first_seen [] = []"
| "first_seen (k # ks) = k # filter (\<lambda>x. x \<noteq> k) (first_seen ks)"

text \<open>Storing one key and value in the dictionary, as the loop body does (proof device).\<close>

definition add_pair :: "qdict \<Rightarrow> string \<times> string option \<Rightarrow> qdict" where
  "add_pair out p =
     (case map_of out (fst p) of
        Some old \<Rightarrow> AList.update (fst p)
            (Multiple ((case old of Multiple vs \<Rightarrow> vs | Single x \<Rightarrow> [x]) @ [snd p])) out
      | None \<Rightarrow> out @ [(fst p, Single (snd p))])"

text \<open>
  What a key with the values \<open>vs\<close> (in order of occurrence) is bound to: nothing when it
  never occurs, its value when it occurs once, the list of its values otherwise.
\<close>

definition collect :: "string option list \<Rightarrow> qvalue option" where
  "collect vs = (case vs of [] \<Rightarrow> None | [v] \<Rightarrow> Some (Single v) | _ \<Rightarrow> Some (Multiple vs))"

subsection \<open>The permission gate: \<^verbatim>\<open>webmethod\<close>\<close>





subsection \<open>The application coordinator: prefix rewriting and one-time initialization\<close>

text \<open>
  The fields of \<^verbatim>\<open>WPApp\<close> that the modelled code reads or writes. \<open>user\<close> is the
  state of the application subclass, which the overridable \<^verbatim>\<open>init()\<close> acts on.
\<close>

record 'u app =
  Prefix :: "string option"
  ReplacePrefix :: "string option"
  DefaultMethod :: string
  Initialized :: bool
  ScriptHome :: "string option"
  user :: 'u

text \<open>\<^verbatim>\<open>WPApp.convertPath\<close> (lines 523-540); \<open>None\<close> is Python's \<^verbatim>\<open>None\<close>.\<close>

definition convertPath :: "'u app \<Rightarrow> string \<Rightarrow> string option" where
  "convertPath self path =
     (case Prefix self of
        None \<Rightarrow> Some path
      | Some prefix \<Rightarrow>
          (let matched =
                 (if path = prefix then Some path
                  else if startswith path (prefix @ ''/'') then Some prefix
                  else None)
           in case matched of
                None \<Rightarrow> None
              | Some m \<Rightarrow>
                  (let path' = (case ReplacePrefix self of
                                  None \<Rightarrow> path
                                | Some rp \<Rightarrow> rp @ drop (length m) path)
                   in Some (if path' = [] then ''/'' else path'))))"

text \<open>
  How far \<^verbatim>\<open>WPApp.__call__\<close> gets before it builds the root handler: the path is
  outside the prefix (a 404 is returned), \<^verbatim>\<open>init()\<close> raised, or the request goes on
  with the converted path.
\<close>

datatype prologue = NotFound404 | Raised error | Proceed string

text \<open>
  \<^verbatim>\<open>WPApp.__call__\<close>, lines 642-669. \<open>init\<close> is the application's \<^verbatim>\<open>init()\<close>:
  it returns the subclass state it leaves behind and the exception it raised, if any.
  \<open>script_home\<close> is the directory computed from the environment at line 665. The rest
  of \<^verbatim>\<open>__call__\<close> does not touch \<^verbatim>\<open>Initialized\<close>.
\<close>

definition WPApp_call ::
  "('u \<Rightarrow> 'u \<times> error option) \<Rightarrow> string \<Rightarrow> 'u app \<Rightarrow> string \<Rightarrow> 'u app \<times> prologue" where
  "WPApp_call init script_home self path =
     (case convertPath self path of
        None \<Rightarrow> (self, NotFound404)
      | Some p \<Rightarrow>
          if \<not> Initialized self then
            (let s1 = self\<lparr>ScriptHome := Some script_home\<rparr>;
                 (u1, e1) = init (user s1);
                 s2 = s1\<lparr>user := u1\<rparr>
             in case e1 of
                  Some e \<Rightarrow> (s2, Raised e)
                | None \<Rightarrow>
                    (let s3 = s2\<lparr>Initialized := True\<rparr>;
                         (u2, e2) = init (user s3);
                         s4 = s3\<lparr>user := u2\<rparr>
                     in case e2 of
                          Some e \<Rightarrow> (s4, Raised e)
                        | None \<Rightarrow> (s4, Proceed p)))
          else (self, Proceed p))"

text \<open>A run of requests against one application, oldest first.\<close>

fun WPApp_calls ::
  "('u \<Rightarrow> 'u \<times> error option) \<Rightarrow> string \<Rightarrow> 'u app \<Rightarrow> string list \<Rightarrow> 'u app" where
  "WPApp_calls init script_home self [] = self"
| "WPApp_calls init script_home self (p # ps) =
     WPApp_calls init script_home (fst (WPApp_call init script_home self p)) ps"

text \<open>An \<^verbatim>\<open>init()\<close> that counts its own calls, and a fresh application for it.\<close>

definition counting_init :: "nat \<Rightarrow> nat \<times> error option" where
  "counting_init n = (Suc n, None)"

definition fresh_app :: "nat app" where
  "fresh_app = \<lparr>Prefix = None, ReplacePrefix = Some [], DefaultMethod = ''index'',
                 Initialized = False, ScriptHome = None, user = 0\<rparr>"

subsection \<open>Handler nodes\<close>

text \<open>
  The values that an attribute of a handler can hold, as far as the dispatcher tells them
  apart: \<^verbatim>\<open>None\<close>, plain data, a function or bound method (with its name and its
  \<^verbatim>\<open>__doc__\<close>), a reference to a \<^verbatim>\<open>WPHandler\<close> instance (an index into the heap), or
  any other object (the flag says whether it is callable; the \<^verbatim>\<open>WPApp\<close> is one that
  is, the request one that is not).
\<close>

datatype pyobj =
    NoneV
  | BoolV bool
  | StrV string
  | DictV
  | Func string "string option"
  | HandlerRef nat
  | Object bool

text \<open>
  A \<^verbatim>\<open>WPHandler\<close> instance. \<open>Strict\<close> and \<open>MethodNames\<close> are the class attributes
  \<^verbatim>\<open>_Strict\<close> and \<^verbatim>\<open>_MethodNames\<close>; \<open>Request\<close> to \<open>WebMethods\<close> are the
  instance attributes that \<^verbatim>\<open>__init__\<close> sets (lines 201-211); \<open>attrs\<close> are the
  further instance attributes that a subclass sets, in insertion order; \<open>members\<close> are the
  attributes found on the class (methods and class variables); \<open>has_call\<close> says whether
  the class defines \<^verbatim>\<open>__call__\<close>.
\<close>

record node =
  Strict :: bool
  MethodNames :: "string list option"
  Request :: pyobj
  Path :: "string option"
  App :: pyobj
  BeingDestroyed :: bool
  AppURL :: "string option"
  WebMethods :: "(string \<times> pyobj) list"
  attrs :: "(string \<times> pyobj) list"
  members :: "(string \<times> pyobj) list"
  has_call :: bool

type_synonym heap = "node list"

definition WebMethodSignature :: string where
  "WebMethodSignature = ''__WebPie:webmethod__''"

text \<open>The instance dictionary \<^verbatim>\<open>self.__dict__\<close>, in insertion order.\<close>

definition instance_dict :: "node \<Rightarrow> (string \<times> pyobj) list" where
  "instance_dict self =
     [(''Request'', Request self),
      (''Path'', case Path self of None \<Rightarrow> NoneV | Some p \<Rightarrow> StrV p),
      (''App'', App self),
      (''BeingDestroyed'', BoolV (BeingDestroyed self)),
      (''AppURL'', case AppURL self of None \<Rightarrow> NoneV | Some u \<Rightarrow> StrV u),
      (''_WebMethods'', DictV)] @ attrs self"

text \<open>
  \<^verbatim>\<open>hasattr(self, name)\<close> and \<^verbatim>\<open>getattr(self, name)\<close>: the instance dictionary
  first, then the class. \<open>None\<close> means that there is no such attribute.
\<close>

definition getattr :: "node \<Rightarrow> string \<Rightarrow> pyobj option" where
  "getattr self name =
     (case map_of (instance_dict self) name of
        Some v \<Rightarrow> Some v
      | None \<Rightarrow>
          if name = ''_Strict'' then Some (BoolV (Strict self))
          else if name = ''_MethodNames''
            then Some (case MethodNames self of None \<Rightarrow> NoneV | Some ns \<Rightarrow> Object False)
          else map_of (members self) name)"

text \<open>\<^verbatim>\<open>isinstance(o, WPHandler)\<close> and \<^verbatim>\<open>callable(o)\<close>.\<close>

definition isWPHandler :: "heap \<Rightarrow> pyobj \<Rightarrow> bool" where
  "isWPHandler hp ob = (case ob of HandlerRef n \<Rightarrow> n < length hp | _ \<Rightarrow> False)"

definition callable :: "heap \<Rightarrow> pyobj \<Rightarrow> bool" where
  "callable hp ob =
     (case ob of
        Func _ _ \<Rightarrow> True
      | Object c \<Rightarrow> c
      | HandlerRef n \<Rightarrow> n < length hp \<and> has_call (hp ! n)
      | _ \<Rightarrow> False)"

text \<open>
  \<^verbatim>\<open>WPHandler.step_down\<close> (lines 213-239). The result \<open>Inr None\<close> is Python's
  \<^verbatim>\<open>None\<close>. In the \<^verbatim>\<open>or\<close> chain of lines 226-232 the name \<^verbatim>\<open>method\<close> is bound
  neither in the function nor in the module, so evaluating
  \<^verbatim>\<open>hasattr(method, "__doc__")\<close> raises \<^verbatim>\<open>NameError\<close>; the chain gets there when
  \<^verbatim>\<open>allowed\<close> is false and the name is not in \<^verbatim>\<open>_MethodNames\<close>.
\<close>

definition step_down :: "heap \<Rightarrow> node \<Rightarrow> string \<Rightarrow> error + pyobj option" where
  "step_down hp self name =
     (let allowed = \<not> Strict self;
          (attr, allowed) =
             (case getattr self name of
                Some a \<Rightarrow> (a, allowed)
              | None \<Rightarrow>
                  (case map_of (WebMethods self) name of
                     Some m \<Rightarrow> (m, True)
                   | None \<Rightarrow> (NoneV, allowed)))
      in if attr = NoneV then Inr None
         else if callable hp attr then
           (if allowed then Inr (Some attr)
            else if (case MethodNames self of None \<Rightarrow> False | Some ns \<Rightarrow> name \<in> set ns)
              then Inr (Some attr)
            else Inl (NameError ''method''))
         else if isWPHandler hp attr then Inr (Some attr)
         else Inr None)"

text \<open>
  The \<^verbatim>\<open>WPHandler\<close> base class as \<^verbatim>\<open>__init__\<close> leaves it: the class variable
  \<^verbatim>\<open>Version\<close> and the methods that the class defines (lines 196-378), and
  \<^verbatim>\<open>.env\<close> registered as a web method unless the class is strict. The attributes
  that every Python object has and the property \<^verbatim>\<open>session\<close> are not listed.
\<close>

definition WPHandler_members :: "(string \<times> pyobj) list" where
  "WPHandler_members =
     [(''Version'', StrV []),
      (''__init__'', Func ''__init__'' None),
      (''step_down'', Func ''step_down'' None),
      (''addHandler'', Func ''addHandler'' None),
      (''_app_lock'', Func ''_app_lock'' None),
      (''initAtPath'', Func ''initAtPath'' None),
      (''_checkPermissions'', Func ''_checkPermissions'' None),
      (''checkRoles'', Func ''checkRoles'' None),
      (''_destroy'', Func ''_destroy'' None),
      (''destroy'', Func ''destroy'' None),
      (''jinja_globals'', Func ''jinja_globals'' None),
      (''add_globals'', Func ''add_globals'' None),
      (''render_to_string'', Func ''render_to_string'' None),
      (''render_to_iterator'', Func ''render_to_iterator'' None),
      (''render_to_response'', Func ''render_to_response'' None),
      (''mergeLines'', Func ''mergeLines'' None),
      (''render_to_response_iterator'', Func ''render_to_response_iterator'' None),
      (''redirect'', Func ''redirect'' None),
      (''getSessionData'', Func ''getSessionData'' None),
      (''scriptUri'', Func ''scriptUri'' None),
      (''uriDir'', Func ''uriDir'' None),
      (''renderTemplate'', Func ''renderTemplate'' None),
      (''_env__'', Func ''_env__'' None)]"

definition WPHandler_init :: "bool \<Rightarrow> (string \<times> pyobj) list \<Rightarrow> (string \<times> pyobj) list \<Rightarrow> node" where
  "WPHandler_init strict flds extra_members =
     \<lparr>Strict = strict, MethodNames = None, Request = Object False, Path = None,
      App = Object True, BeingDestroyed = False, AppURL = None,
      WebMethods = (if \<not> strict then [(''.env'', Func ''_env__'' None)] else []),
      attrs = flds, members = extra_members @ WPHandler_members, has_call = False\<rparr>"

subsection \<open>The path resolver: \<^verbatim>\<open>WPApp.find_web_method\<close> and \<^verbatim>\<open>WPApp.wsgi_call\<close>\<close>

text \<open>
  \<^verbatim>\<open>WPApp.find_web_method\<close> (lines 547-580). The result is the heap (the resolver
  writes \<^verbatim>\<open>handler.Path\<close>) and either the exception raised (\<^verbatim>\<open>HTTPFound\<close> for a
  redirect, or what \<^verbatim>\<open>step_down\<close> raised) or the pair of the method (\<open>None\<close> when
  nothing was found) and the relpath. The request and the query arguments are passed
  along unread and are left out.
\<close>

fun find_web_method ::
  "'u app \<Rightarrow> heap \<Rightarrow> pyobj \<Rightarrow> string \<Rightarrow> string list \<Rightarrow> heap \<times> (error + pyobj option \<times> string)" where
  "find_web_method self hp handler path path_down =
     (let path = (if path = [] then ''/'' else path);
          relpath = str_join ''/'' path_down
      in case handler of
           HandlerRef n \<Rightarrow>
             if n < length hp then
               (let hp1 = hp[n := (hp ! n)\<lparr>Path := Some path\<rparr>];
                    fall =
                      (if callable hp1 handler then (hp1, Inr (Some handler, relpath))
                       else if path_down = [] then
                         (hp1, Inl (HTTPFound
                            ((if endswith path ''/'' then path else path @ ''/'')
                               @ DefaultMethod self)))
                       else (hp1, Inr (None, relpath)))
                in case path_down of
                     [] \<Rightarrow> fall
                   | name # rest \<Rightarrow>
                       (case step_down hp1 (hp1 ! n) name of
                          Inl e \<Rightarrow> (hp1, Inl e)
                        | Inr None \<Rightarrow> fall
                        | Inr (Some attr) \<Rightarrow>
                            find_web_method self hp1 attr
                              ((if endswith path ''/'' then path else path @ ''/'') @ name) rest))
             else (hp, Inr (if callable hp handler then Some handler else None, relpath))
         | _ \<Rightarrow> (hp, Inr (if callable hp handler then Some handler else None, relpath)))"

text \<open>
  The loop of lines 605-606, \<^verbatim>\<open>while '' in path_down: path_down.remove('')\<close>:
  \<^verbatim>\<open>remove\<close> deletes the first occurrence.
\<close>

function remove_empty :: "string list \<Rightarrow> string list" where
  "remove_empty path_down =
     (if [] \<in> set path_down then remove_empty (remove1 [] path_down) else path_down)"
  by pat_completeness auto
termination
proof (relation "measure length")
  show "wf (measure length)" by simp
next
  fix path_down :: "string list"
  assume "[] \<in> set path_down"
  then have "0 < length path_down" by (rule length_pos_if_in_set)
  with \<open>[] \<in> set path_down\<close> show "(remove1 [] path_down, path_down) \<in> measure length"
    by (simp add: length_remove1)
qed

declare remove_empty.simps [simp del]

text \<open>
  The resolution part of \<^verbatim>\<open>WPApp.wsgi_call\<close> (lines 603-610): the path is cut at the
  slashes, the empty segments are removed and the resolver starts at the root handler
  with the empty path.
\<close>

definition path_segments :: "string \<Rightarrow> string list" where
  "path_segments path = remove_empty (str_split (CHR ''/'') path)"

definition wsgi_resolve ::
  "'u app \<Rightarrow> heap \<Rightarrow> pyobj \<Rightarrow> string \<Rightarrow> heap \<times> (error + pyobj option \<times> string)" where
  "wsgi_resolve self hp root_handler path =
     find_web_method self hp root_handler [] (path_segments path)"

declare find_web_method.simps [simp del]

subsection \<open>Tearing a handler tree down: \<^verbatim>\<open>WPHandler._destroy\<close>\<close>

text \<open>
  What a teardown does that can be observed: \<open>Hook n\<close>, the overridable
  \<^verbatim>\<open>destroy()\<close> of node \<open>n\<close> is called (the base class does nothing there, and what
  it raises is swallowed, lines 273-274); \<open>Enter n\<close>, \<^verbatim>\<open>_destroy\<close> of node \<open>n\<close>
  passes its guard and tears the node down.
\<close>

datatype event = Hook nat | Enter nat

record dstate =
  heap :: heap
  trace :: "event list"



text \<open>
  The node that the attribute \<open>k\<close> of a node refers to, \<^verbatim>\<open>App\<close> apart (the teardown
  clears \<^verbatim>\<open>App\<close> before it looks at the attributes); the nodes that node \<open>n\<close>
  refers to; the nodes that can be reached from a node along such references.
\<close>

definition ref_at :: "node \<Rightarrow> string \<Rightarrow> nat option" where
  "ref_at h k =
     (case map_of (instance_dict (h\<lparr>App := NoneV\<rparr>)) k of
        Some (HandlerRef m) \<Rightarrow> Some m
      | _ \<Rightarrow> None)"




text \<open>
  Two handler graphs: a root whose attributes \<open>a\<close> and \<open>b\<close> are nodes that share the
  child \<open>c\<close>; and a node whose attribute \<open>me\<close> is the node itself.
\<close>

definition diamond :: heap where
  "diamond =
     [WPHandler_init False [(''a'', HandlerRef 1), (''b'', HandlerRef 2)] [],
      WPHandler_init False [(''c'', HandlerRef 3)] [],
      WPHandler_init False [(''c'', HandlerRef 3)] [],
      WPHandler_init False [] []]"




subsection \<open>The response model: \<^verbatim>\<open>makeResponse\<close>\<close>

text \<open>
  The values inside a dictionary, which \<^verbatim>\<open>makeResponse\<close> does not look into, and a
  dictionary with string keys.
\<close>

datatype jval = JNone | JInt int | JStr string | JOther

type_synonym pydict = "(string \<times> jval) list"

text \<open>
  The body of a response: empty, a list of byte chunks, a generator of byte chunks
  (lines 172: each chunk is converted, or found inconvertible, only when the transport
  pulls it), or a text.
\<close>

datatype body = Empty | Chunks "string list" | Lazy "(error + string) list" | Text string

text \<open>
  Modelled from the spec: the \<^verbatim>\<open>Response\<close> class is imported from the package's
  \<^verbatim>\<open>webob\<close> module, which is not among the sources. The canonical response of the
  specification has a status, a content type, a header mapping and a body; a response is
  created with a default status and a default content type and no headers; assigning the
  headers also sets the content type that they imply (their \<^verbatim>\<open>Content-Type\<close> entry),
  if any; assigning the content type or the text replaces that part.
\<close>

record response =
  resp_status :: int
  resp_content_type :: string
  resp_headers :: pydict
  resp_body :: body

text \<open>
  Modelled from the spec: the defaults, the constructor \<^verbatim>\<open>Response(app_iter, status)\<close>
  and the assignments to \<^verbatim>\<open>headers\<close>, \<^verbatim>\<open>content_type\<close> and \<^verbatim>\<open>text\<close> of the
  same missing class.
\<close>

definition default_status :: int where
  "default_status = 200"

definition default_content_type :: string where
  "default_content_type = ''text/html''"

definition Response :: "body option \<Rightarrow> int option \<Rightarrow> response" where
  "Response app_iter status =
     \<lparr>resp_status = (case status of None \<Rightarrow> default_status | Some i \<Rightarrow> i),
      resp_content_type = default_content_type,
      resp_headers = [],
      resp_body = (case app_iter of None \<Rightarrow> Empty | Some b \<Rightarrow> b)\<rparr>"

definition implied_content_type :: "pydict \<Rightarrow> string option" where
  "implied_content_type hs =
     (case map_of hs ''Content-Type'' of Some (JStr ct) \<Rightarrow> Some ct | _ \<Rightarrow> None)"

definition set_headers :: "pydict \<Rightarrow> response \<Rightarrow> response" where
  "set_headers hs r =
     r\<lparr>resp_headers := hs,
       resp_content_type :=
         (case implied_content_type hs of Some ct \<Rightarrow> ct | None \<Rightarrow> resp_content_type r)\<rparr>"

definition set_content_type :: "string \<Rightarrow> response \<Rightarrow> response" where
  "set_content_type ct r = r\<lparr>resp_content_type := ct\<rparr>"

definition set_text :: "string \<Rightarrow> response \<Rightarrow> response" where
  "set_text t r = r\<lparr>resp_body := Text t\<rparr>"

text \<open>
  The values that a web method can return, by the types that \<^verbatim>\<open>makeResponse\<close> tests
  for: \<^verbatim>\<open>int\<close>, \<^verbatim>\<open>str\<close>, \<^verbatim>\<open>bytes\<close>, \<^verbatim>\<open>dict\<close>, \<^verbatim>\<open>list\<close>, \<^verbatim>\<open>tuple\<close>, any
  other \<^verbatim>\<open>Iterable\<close> (a generator, a set), a \<^verbatim>\<open>Response\<close>, \<^verbatim>\<open>None\<close>, and any
  other object that is none of these (a float, say). A \<^verbatim>\<open>Response\<close> is taken to be
  none of the other types.
\<close>

datatype pyval =
    PNone
  | PInt int
  | PStr string
  | PBytes string
  | PDict pydict
  | PList "pyval list"
  | PTuple "pyval list"
  | PIter "pyval list"
  | PResponse response
  | PObject

text \<open>\<^verbatim>\<open>to_bytes\<close> (lines 12-13): anything but \<^verbatim>\<open>bytes\<close> is asked to \<^verbatim>\<open>encode\<close>.\<close>

definition to_bytes :: "pyval \<Rightarrow> error + string" where
  "to_bytes x = (case x of PBytes b \<Rightarrow> Inr b | PStr s \<Rightarrow> Inr s | _ \<Rightarrow> Inl AttributeError)"

text \<open>The list comprehension of line 169: the first chunk that fails raises.\<close>

fun to_bytes_list :: "pyval list \<Rightarrow> error + string list" where
  "to_bytes_list [] = Inr []"
| "to_bytes_list (x # xs) =
     (case to_bytes x of
        Inl e \<Rightarrow> Inl e
      | Inr b \<Rightarrow> (case to_bytes_list xs of Inl e \<Rightarrow> Inl e | Inr bs \<Rightarrow> Inr (b # bs)))"

text \<open>
  The local variables of \<^verbatim>\<open>makeResponse\<close> (lines 143-147); \<open>text_var\<close> is
  \<^verbatim>\<open>text\<close>.
\<close>

record locals =
  app_iter :: "body option"
  text_var :: "string option"
  content_type :: "string option"
  status :: "int option"
  headers :: "pydict option"

text \<open>Lines 175-182: the part is headers, a status or a content type, or it is refused.\<close>

definition classify :: "locals \<Rightarrow> pyval \<Rightarrow> error + locals" where
  "classify st part =
     (case part of
        PDict d \<Rightarrow> Inr (st\<lparr>headers := Some d\<rparr>)
      | PInt i \<Rightarrow> Inr (st\<lparr>status := Some i\<rparr>)
      | PStr s \<Rightarrow> Inr (st\<lparr>content_type := Some s\<rparr>)
      | _ \<Rightarrow> Inl ValueError)"

text \<open>
  One round of the loop over the parts (lines 152-182). \<open>dumps\<close> is
  \<^verbatim>\<open>json.dumps\<close> followed by the encoding; \<open>None\<close> means that it raises
  \<^verbatim>\<open>TypeError\<close>.
\<close>

definition part_step :: "(pydict \<Rightarrow> string option) \<Rightarrow> locals \<Rightarrow> pyval \<Rightarrow> error + locals" where
  "part_step dumps st part =
     (if app_iter st = None \<and> text_var st = None then
        (case part of
           PDict d \<Rightarrow>
             (case dumps d of
                None \<Rightarrow> Inl TypeError
              | Some j \<Rightarrow> Inr (st\<lparr>app_iter := Some (Chunks [j]),
                                 content_type := Some ''text/json''\<rparr>))
         | PBytes b \<Rightarrow> Inr (st\<lparr>app_iter := Some (Chunks [b])\<rparr>)
         | PStr s \<Rightarrow> Inr (st\<lparr>text_var := Some s\<rparr>)
         | PList xs \<Rightarrow>
             (case to_bytes_list xs of
                Inl e \<Rightarrow> Inl e
              | Inr bs \<Rightarrow> Inr (st\<lparr>app_iter := Some (Chunks bs)\<rparr>))
         | PTuple xs \<Rightarrow> Inr (st\<lparr>app_iter := Some (Lazy (map to_bytes xs))\<rparr>)
         | PIter xs \<Rightarrow> Inr (st\<lparr>app_iter := Some (Lazy (map to_bytes xs))\<rparr>)
         | _ \<Rightarrow> classify st part)
      else classify st part)"

fun parts_loop :: "(pydict \<Rightarrow> string option) \<Rightarrow> locals \<Rightarrow> pyval list \<Rightarrow> error + locals" where
  "parts_loop dumps st [] = Inr st"
| "parts_loop dumps st (part # parts) =
     (case part_step dumps st part of
        Inl e \<Rightarrow> Inl e
      | Inr st' \<Rightarrow> parts_loop dumps st' parts)"

text \<open>Lines 184-192: the response is built from the local variables.\<close>

definition build_response :: "locals \<Rightarrow> response" where
  "build_response st =
     (let response = Response (app_iter st) (status st);
          response = (case headers st of
                        None \<Rightarrow> response
                      | Some hs \<Rightarrow> set_headers hs response);
          response = (case content_type st of
                        None \<Rightarrow> response
                      | Some ct \<Rightarrow> if ct \<noteq> [] then set_content_type ct response else response);
          response = (case text_var st of
                        None \<Rightarrow> response
                      | Some t \<Rightarrow> set_text t response)
      in response)"

definition no_locals :: locals where
  "no_locals = \<lparr>app_iter = None, text_var = None, content_type = None, status = None,
                headers = None\<rparr>"

text \<open>\<^verbatim>\<open>makeResponse\<close> (lines 121-192).\<close>

definition makeResponse :: "(pydict \<Rightarrow> string option) \<Rightarrow> pyval \<Rightarrow> error + response" where
  "makeResponse dumps resp =
     (case resp of
        PResponse r \<Rightarrow> Inr r
      | PInt i \<Rightarrow> Inr (Response None (Some i))
      | _ \<Rightarrow>
          (let resp = (case resp of PTuple parts \<Rightarrow> parts | _ \<Rightarrow> [resp])
           in case parts_loop dumps no_locals resp of
                Inl e \<Rightarrow> Inl e
              | Inr st \<Rightarrow> Inr (build_response st)))"

text \<open>
  The shapes of the parts. A body shape is one that the first block of the loop takes
  as the body; a meta shape is one that the second block takes as headers, status or
  content type.
\<close>

definition is_int :: "pyval \<Rightarrow> bool" where
  "is_int p = (case p of PInt _ \<Rightarrow> True | _ \<Rightarrow> False)"

definition is_dict :: "pyval \<Rightarrow> bool" where
  "is_dict p = (case p of PDict _ \<Rightarrow> True | _ \<Rightarrow> False)"

definition is_str :: "pyval \<Rightarrow> bool" where
  "is_str p = (case p of PStr _ \<Rightarrow> True | _ \<Rightarrow> False)"

definition body_shape :: "pyval \<Rightarrow> bool" where
  "body_shape p =
     (case p of
        PDict _ \<Rightarrow> True | PBytes _ \<Rightarrow> True | PStr _ \<Rightarrow> True | PList _ \<Rightarrow> True
      | PTuple _ \<Rightarrow> True | PIter _ \<Rightarrow> True | _ \<Rightarrow> False)"

definition meta_shape :: "pyval \<Rightarrow> bool" where
  "meta_shape p = (is_dict p \<or> is_int p \<or> is_str p)"

text \<open>
  The body converts: a dictionary is serialized by \<open>dumps\<close>, the chunks of a list are
  strings or bytes.
\<close>

definition body_converts :: "(pydict \<Rightarrow> string option) \<Rightarrow> pyval \<Rightarrow> bool" where
  "body_converts dumps p =
     (case p of
        PDict d \<Rightarrow> dumps d \<noteq> None
      | PList xs \<Rightarrow> list_all (\<lambda>x. is_str x \<or> (case x of PBytes _ \<Rightarrow> True | _ \<Rightarrow> False)) xs
      | _ \<Rightarrow> True)"





text \<open>The integer, the dictionary and the string among some parts, if any.\<close>

definition the_int :: "pyval list \<Rightarrow> int option" where
  "the_int parts = (case find is_int parts of Some (PInt i) \<Rightarrow> Some i | _ \<Rightarrow> None)"

definition the_dict :: "pyval list \<Rightarrow> pydict option" where
  "the_dict parts = (case find is_dict parts of Some (PDict d) \<Rightarrow> Some d | _ \<Rightarrow> None)"

definition the_str :: "pyval list \<Rightarrow> string option" where
  "the_str parts = (case find is_str parts of Some (PStr s) \<Rightarrow> Some s | _ \<Rightarrow> None)"

text \<open>A serializer for the examples: it accepts every dictionary.\<close>

definition dumps_any :: "pydict \<Rightarrow> string option" where
  "dumps_any d = Some ''{}''"

text \<open>The updates of the second block of the loop, for a part of a meta shape (proof device).\<close>

definition meta_step :: "locals \<Rightarrow> pyval \<Rightarrow> locals" where
  "meta_step st p =
     (case p of
        PDict d \<Rightarrow> st\<lparr>headers := Some d\<rparr>
      | PInt i \<Rightarrow> st\<lparr>status := Some i\<rparr>
      | PStr s \<Rightarrow> st\<lparr>content_type := Some s\<rparr>
      | _ \<Rightarrow> st)"

subsection \<open>Examples\<close>

text \<open>
  A strict handler with a method \<^verbatim>\<open>hello\<close> that is decorated with
  \<^verbatim>\<open>@webmethod()\<close>, so that its \<^verbatim>\<open>__doc__\<close> is the web method signature; the class
  sets no \<^verbatim>\<open>_MethodNames\<close> and registers nothing.
\<close>

definition tagged_handler :: node where
  "tagged_handler =
     WPHandler_init True [] [(''hello'', Func ''hello'' (Some WebMethodSignature))]"


section \<open>Properties\<close>

subsection \<open>Query strings\<close>

lemma str_split1_notin: "c \<notin> set w \<Longrightarrow> str_split1 c w = [w]"
proof -
  assume "c \<notin> set w"
  then have dw: "dropWhile (\<lambda>x. x \<noteq> c) w = []" by auto
  show ?thesis unfolding str_split1_def dw by simp
qed

lemma str_split1_in:
  "c \<in> set w \<Longrightarrow> str_split1 c w = [takeWhile (\<lambda>x. x \<noteq> c) w, tl (dropWhile (\<lambda>x. x \<noteq> c) w)]"
proof -
  assume "c \<in> set w"
  then have "dropWhile (\<lambda>x. x \<noteq> c) w \<noteq> []" by simp
  then obtain y r where "dropWhile (\<lambda>x. x \<noteq> c) w = y # r" by (cases "dropWhile (\<lambda>x. x \<noteq> c) w") auto
  then show ?thesis by (simp add: str_split1_def)
qed

lemma parseQuery_step_add:
  "parseQuery_step out w = foldl add_pair out (word_pairs [w])"
proof (cases "CHR ''='' \<in> set w")
  case True
  then have "w \<noteq> []" by auto
  with True show ?thesis
    by (simp add: parseQuery_step_def str_split1_in word_pairs_def add_pair_def Let_def
             split: option.splits)
next
  case False
  then have tw: "takeWhile (\<lambda>x. x \<noteq> CHR ''='') w = w"
    by (auto simp: takeWhile_eq_all_conv)
  from False show ?thesis
    by (cases "w = []")
       (simp_all add: parseQuery_step_def str_split1_notin word_pairs_def add_pair_def tw Let_def
             split: option.splits)
qed

lemma word_pairs_append: "word_pairs (xs @ ys) = word_pairs xs @ word_pairs ys"
  by (simp add: word_pairs_def)

lemma foldl_parseQuery_step:
  "foldl parseQuery_step out ws = foldl add_pair out (word_pairs ws)"
proof (induction ws arbitrary: out)
  case Nil
  show ?case by (simp add: word_pairs_def)
next
  case (Cons w ws)
  have wp: "word_pairs (w # ws) = word_pairs [w] @ word_pairs ws"
    using word_pairs_append [of "[w]" ws] by simp
  have "foldl parseQuery_step out (w # ws) = foldl parseQuery_step (parseQuery_step out w) ws"
    by simp
  also have "\<dots> = foldl add_pair (parseQuery_step out w) (word_pairs ws)"
    by (rule Cons.IH)
  also have "\<dots> = foldl add_pair (foldl add_pair out (word_pairs [w])) (word_pairs ws)"
    by (simp only: parseQuery_step_add)
  also have "\<dots> = foldl add_pair out (word_pairs (w # ws))"
    by (simp only: wp foldl_append)
  finally show ?case .
qed

lemma set_first_seen: "set (first_seen ks) = set ks"
  by (induction ks) auto

lemma first_seen_snoc:
  "first_seen (ks @ [k]) = (if k \<in> set ks then first_seen ks else first_seen ks @ [k])"
  by (induction ks) (auto simp: set_first_seen)


lemma map_of_add_pair:
  "map_of (add_pair out p) k =
     (if k = fst p then
        (case map_of out k of
           None \<Rightarrow> Some (Single (snd p))
         | Some old \<Rightarrow> Some (Multiple ((case old of Multiple vs \<Rightarrow> vs | Single x \<Rightarrow> [x]) @ [snd p])))
      else map_of out k)"
proof (cases "map_of out (fst p)")
  case None
  then show ?thesis
    by (cases "map_of out k") (auto simp: add_pair_def map_add_def)
next
  case (Some old)
  then show ?thesis
    by (simp add: add_pair_def update_conv')
qed

lemma keys_add_pair:
  "map fst (add_pair out p) = (if fst p \<in> fst ` set out then map fst out else map fst out @ [fst p])"
  by (auto simp: add_pair_def map_of_eq_None_iff AList.update_keys[symmetric] update_keys split: option.splits)

lemma keys_foldl_add_pair:
  "map fst (foldl add_pair [] ps) = first_seen (map fst ps)"
proof (induction ps rule: rev_induct)
  case Nil
  show ?case by simp
next
  case (snoc p ps)
  have "fst ` set (foldl add_pair [] ps) = set (map fst (foldl add_pair [] ps))" by simp
  also have "\<dots> = fst ` set ps" by (simp add: snoc.IH set_first_seen)
  finally show ?case
    by (simp add: keys_add_pair first_seen_snoc snoc.IH)
qed

lemma collect_snoc:
  "collect (vs @ [v]) =
     (case collect vs of None \<Rightarrow> Some (Single v)
      | Some old \<Rightarrow> Some (Multiple ((case old of Multiple us \<Rightarrow> us | Single x \<Rightarrow> [x]) @ [v])))"
  by (cases vs rule: list.exhaust; cases "tl vs") (auto simp: collect_def split: list.splits)

lemma lookup_foldl_add_pair:
  "map_of (foldl add_pair [] ps) k = collect (occurrences k ps)"
proof (induction ps arbitrary: k rule: rev_induct)
  case Nil
  show ?case by (simp add: collect_def occurrences_def)
next
  case (snoc p ps)
  show ?case
    by (simp add: map_of_add_pair snoc.IH occurrences_def collect_snoc)
qed


text \<open>
  Claim C9. For every query string, \<^verbatim>\<open>parseQuery\<close> returns a dictionary in which a
  key that occurs once is bound to its value (\<open>None\<close> when the word has no \<open>=\<close>, the
  text after the first \<open>=\<close> otherwise), a key that occurs more than once is bound to
  the list of all its values in the order of occurrence, a key that does not occur is
  not bound, and the keys stand in the order of their first occurrence. Words and keys
  that are empty are skipped; the query \<^verbatim>\<open>None\<close> gives the empty dictionary.
\<close>

theorem parseQuery_collects:
  "map_of (parseQuery (Some q)) k =
     (case occurrences k (query_pairs q) of
        [] \<Rightarrow> None
      | [v] \<Rightarrow> Some (Single v)
      | vs \<Rightarrow> Some (Multiple vs))
   \<and> map fst (parseQuery (Some q)) = first_seen (map fst (query_pairs q))
   \<and> parseQuery None = []"
proof -
  have "parseQuery (Some q) = foldl add_pair [] (query_pairs q)"
    by (simp add: parseQuery_def query_pairs_def foldl_parseQuery_step)
  moreover have "parseQuery None = []"
    by (simp add: parseQuery_def parseQuery_step_def)
  ultimately show ?thesis
    by (simp add: lookup_foldl_add_pair keys_foldl_add_pair collect_def split: list.splits)
qed

theorem parseQuery_collects_witness:
  "map_of (parseQuery (Some ''a=1&b&a=2&c='')) ''a'' = Some (Multiple [Some ''1'', Some ''2''])
   \<and> map_of (parseQuery (Some ''a=1&b&a=2&c='')) ''b'' = Some (Single None)
   \<and> map_of (parseQuery (Some ''a=1&b&a=2&c='')) ''c'' = Some (Single (Some []))
   \<and> map fst (parseQuery (Some ''a=1&b&a=2&c='')) = [''a'', ''b'', ''c'']"
  using parseQuery_collects [of "''a=1&b&a=2&c=''" "''a''"]
    parseQuery_collects [of "''a=1&b&a=2&c=''" "''b''"]
    parseQuery_collects [of "''a=1&b&a=2&c=''" "''c''"]
  by (simp add: query_pairs_def word_pairs_def occurrences_def)

subsection \<open>The permission gate\<close>




subsection \<open>Stepping down\<close>

lemma step_down_callable_attr:
  assumes "getattr self name = Some attr" and "callable hp attr"
  shows "step_down hp self name =
           (if \<not> Strict self \<or> (\<exists>ns. MethodNames self = Some ns \<and> name \<in> set ns)
            then Inr (Some attr) else Inl (NameError ''method''))"
proof -
  from assms(2) have "attr \<noteq> NoneV" by (auto simp: callable_def)
  with assms show ?thesis
    by (auto simp: step_down_def split: option.splits)
qed

text \<open>
  Claim C10. On a handler that is not strict, \<^verbatim>\<open>step_down(name)\<close> returns every
  callable attribute that the name finds on the node, public or not: the names
  \<^verbatim>\<open>_destroy\<close> and \<^verbatim>\<open>_app_lock\<close> give the framework's own methods.
\<close>

theorem step_down_nonstrict_callable:
  "\<not> Strict self \<Longrightarrow> getattr self name = Some attr \<Longrightarrow> callable hp attr \<Longrightarrow>
   step_down hp self name = Inr (Some attr)"
  by (simp add: step_down_callable_attr)

theorem step_down_nonstrict_callable_witness:
  "step_down [] (WPHandler_init False [] []) ''_destroy'' = Inr (Some (Func ''_destroy'' None))
   \<and> step_down [] (WPHandler_init False [] []) ''_app_lock'' = Inr (Some (Func ''_app_lock'' None))"
  using step_down_nonstrict_callable [of "WPHandler_init False [] []" "''_destroy''" "Func ''_destroy'' None" "[]"]
    step_down_nonstrict_callable [of "WPHandler_init False [] []" "''_app_lock''" "Func ''_app_lock'' None" "[]"]
  by (simp add: WPHandler_init_def getattr_def instance_dict_def WPHandler_members_def callable_def)

text \<open>
  Claim C4. On a strict handler, for a callable attribute that is tagged as a web method
  and is neither listed in \<^verbatim>\<open>_MethodNames\<close> nor registered, \<^verbatim>\<open>step_down\<close> is to
  return the callable. The code does not: the test for the tag reads the unbound name
  \<^verbatim>\<open>method\<close> and raises \<^verbatim>\<open>NameError\<close>.
\<close>

theorem step_down_strict_tagged_raises:
  "getattr tagged_handler ''hello'' = Some (Func ''hello'' (Some WebMethodSignature))
   \<and> Strict tagged_handler \<and> MethodNames tagged_handler = None
   \<and> map_of (WebMethods tagged_handler) ''hello'' = None
   \<and> step_down [] tagged_handler ''hello'' = Inl (NameError ''method'')"
  by (simp add: tagged_handler_def WPHandler_init_def getattr_def instance_dict_def
        WPHandler_members_def callable_def step_down_def)

subsection \<open>One-time initialization\<close>

lemma WPApp_call_first:
  assumes "\<not> Initialized self" and "convertPath self path = Some p"
    and "init (user self) = (u1, None)" and "init u1 = (u2, None)"
  shows "WPApp_call init script_home self path =
           (self\<lparr>ScriptHome := Some script_home, user := u2, Initialized := True\<rparr>, Proceed p)"
  using assms by (simp add: WPApp_call_def)

lemma WPApp_call_later:
  "Initialized self \<Longrightarrow> fst (WPApp_call init script_home self path) = self"
  by (simp add: WPApp_call_def split: option.splits)

text \<open>
  Claim C1. The initialization routine is to run exactly once in the life of an
  application. The code calls \<^verbatim>\<open>init()\<close> twice in the first request (lines 666 and
  669): an \<^verbatim>\<open>init()\<close> that counts its calls has counted two after the first request,
  and still two after later requests.
\<close>

theorem init_runs_twice:
  "user (fst (WPApp_call counting_init ''.'' fresh_app ''/'')) = 2
   \<and> snd (WPApp_call counting_init ''.'' fresh_app ''/'') = Proceed ''/''
   \<and> user (WPApp_calls counting_init ''.'' fresh_app [''/'', ''/a'', ''/b'']) = 2"
  by (simp add: WPApp_call_def convertPath_def counting_init_def fresh_app_def)

subsection \<open>The path resolver\<close>

lemma filter_remove1_empty:
  "filter (\<lambda>w. w \<noteq> []) (remove1 [] xs) = filter (\<lambda>w. w \<noteq> []) xs"
  by (induction xs) auto

lemma remove_empty_filter: "remove_empty xs = filter (\<lambda>w. w \<noteq> []) xs"
proof (induction xs rule: remove_empty.induct)
  case (1 path_down)
  show ?case
  proof (cases "[] \<in> set path_down")
    case True
    then have "remove_empty path_down = remove_empty (remove1 [] path_down)"
      by (subst remove_empty.simps) simp
    also have "\<dots> = filter (\<lambda>w. w \<noteq> []) (remove1 [] path_down)"
      using True by (rule "1.IH")
    finally show ?thesis by (simp add: filter_remove1_empty)
  next
    case False
    then have "remove_empty path_down = path_down"
      by (subst remove_empty.simps) simp
    moreover from False have "filter (\<lambda>w. w \<noteq> []) path_down = path_down"
      by (auto simp: filter_id_conv)
    ultimately show ?thesis by simp
  qed
qed

lemma str_split_not_Nil: "str_split c s \<noteq> []"
  by (induction s) (auto split: list.splits)

lemma str_split_snoc: "str_split c (s @ [c]) = str_split c s @ [[]]"
proof (induction s)
  case Nil
  show ?case by simp
next
  case (Cons x s)
  obtain w ws where "str_split c s = w # ws"
    using str_split_not_Nil [of c s] by (cases "str_split c s") auto
  with Cons show ?case by simp
qed

lemma path_segments_trailing_slash: "path_segments (path @ ''/'') = path_segments path"
  by (simp add: path_segments_def remove_empty_filter str_split_snoc)

lemmas resolver_defs =
  wsgi_resolve_def path_segments_def remove_empty_filter find_web_method.simps
  diamond_def WPHandler_init_def fresh_app_def step_down_def getattr_def instance_dict_def
  WPHandler_members_def callable_def isWPHandler_def endswith_def

text \<open>
  Claim C7. Two paths that differ only by a trailing slash resolve alike against the
  same handlers: the same method and relpath, the same redirect or the same failure,
  and the same heap, since the empty segments are removed before the resolver starts.
\<close>

theorem resolve_trailing_slash:
  "wsgi_resolve self hp root_handler (path @ ''/'') = wsgi_resolve self hp root_handler path"
  by (simp add: wsgi_resolve_def path_segments_trailing_slash)

theorem resolve_trailing_slash_witness:
  "wsgi_resolve fresh_app diamond (HandlerRef 0) ''/a/_destroy/x/'' =
     wsgi_resolve fresh_app diamond (HandlerRef 0) ''/a/_destroy/x''
   \<and> snd (wsgi_resolve fresh_app diamond (HandlerRef 0) ''/a/_destroy/x'') =
        Inr (Some (Func ''_destroy'' None), ''x'')"
  using resolve_trailing_slash [of fresh_app diamond "HandlerRef 0" "''/a/_destroy/x''"]
  by (simp add: resolver_defs)




lemma resolve_example_redirect:
  "snd (wsgi_resolve fresh_app diamond (HandlerRef 0) ''/a/'') = Inl (HTTPFound ''/a/index'')"
  by (simp add: resolver_defs)

subsection \<open>The response model\<close>

lemma classify_meta: "meta_shape p \<Longrightarrow> classify st p = Inr (meta_step st p)"
  by (cases p) (simp_all add: meta_shape_def is_dict_def is_int_def is_str_def classify_def meta_step_def)

lemma classify_not_meta: "\<not> meta_shape p \<Longrightarrow> classify st p = Inl ValueError"
  by (cases p) (simp_all add: meta_shape_def is_dict_def is_int_def is_str_def classify_def)

lemma part_step_int: "is_int p \<Longrightarrow> part_step dumps st p = Inr (meta_step st p)"
  by (cases p) (simp_all add: is_int_def part_step_def classify_def meta_step_def)

lemma part_step_body_set:
  "app_iter st \<noteq> None \<or> text_var st \<noteq> None \<Longrightarrow> part_step dumps st p = classify st p"
  by (auto simp: part_step_def)


lemma meta_step_body [simp]:
  "app_iter (meta_step st p) = app_iter st" "text_var (meta_step st p) = text_var st"
  by (cases p; simp add: meta_step_def)+

lemma foldl_meta_step_body [simp]:
  "app_iter (foldl meta_step st ps) = app_iter st" "text_var (foldl meta_step st ps) = text_var st"
  by (induction ps arbitrary: st) simp_all

lemma parts_loop_body_set:
  "app_iter st \<noteq> None \<or> text_var st \<noteq> None \<Longrightarrow>
   parts_loop dumps st ps =
     (if list_all meta_shape ps then Inr (foldl meta_step st ps) else Inl ValueError)"
proof (induction ps arbitrary: st)
  case Nil
  show ?case by simp
next
  case (Cons p ps)
  show ?case
  proof (cases "meta_shape p")
    case True
    with Cons.prems have "part_step dumps st p = Inr (meta_step st p)"
      by (simp add: part_step_body_set classify_meta)
    moreover from Cons.prems
    have "app_iter (meta_step st p) \<noteq> None \<or> text_var (meta_step st p) \<noteq> None" by simp
    ultimately show ?thesis using True by (simp add: Cons.IH)
  next
    case False
    with Cons.prems have "part_step dumps st p = Inl ValueError"
      by (simp add: part_step_body_set classify_not_meta)
    with False show ?thesis by simp
  qed
qed

lemma parts_loop_ints:
  "list_all is_int pre \<Longrightarrow>
   parts_loop dumps st (pre @ rest) = parts_loop dumps (foldl meta_step st pre) rest"
  by (induction pre arbitrary: st) (simp_all add: part_step_int)

lemma to_bytes_list_ok:
  "list_all (\<lambda>x. is_str x \<or> (case x of PBytes _ \<Rightarrow> True | _ \<Rightarrow> False)) xs \<Longrightarrow>
   \<exists>bs. to_bytes_list xs = Inr bs"
proof (induction xs)
  case Nil
  show ?case by simp
next
  case (Cons x xs)
  then obtain bs where "to_bytes_list xs = Inr bs" by auto
  moreover from Cons.prems obtain b where "to_bytes x = Inr b"
    by (cases x) (auto simp: to_bytes_def is_str_def)
  ultimately show ?case by simp
qed


lemma part_step_body:
  assumes "app_iter st = None" and "text_var st = None"
    and "body_shape b" and "body_converts dumps b"
  shows "\<exists>st'. part_step dumps st b = Inr st'
           \<and> (app_iter st' \<noteq> None \<or> text_var st' \<noteq> None)
           \<and> status st' = status st \<and> headers st' = headers st
           \<and> content_type st' = (if is_dict b then Some ''text/json'' else content_type st)"
proof (cases b)
  case (PList xs)
  with assms(4) obtain bs where "to_bytes_list xs = Inr bs"
    using to_bytes_list_ok [of xs] by (auto simp: body_converts_def)
  with assms(1,2) PList show ?thesis by (simp add: part_step_def is_dict_def)
next
  case (PDict d)
  with assms(4) obtain j where "dumps d = Some j" by (auto simp: body_converts_def)
  with assms(1,2) PDict show ?thesis by (simp add: part_step_def is_dict_def)
qed (use assms in \<open>simp_all add: part_step_def is_dict_def body_shape_def\<close>)









lemma find_snoc:
  "find P (xs @ [x]) = (case find P xs of Some y \<Rightarrow> Some y | None \<Rightarrow> if P x then Some x else None)"
  by (induction xs) auto

lemma find_rev_unique: "length (filter P xs) \<le> 1 \<Longrightarrow> find P (rev xs) = find P xs"
proof (induction xs)
  case Nil
  show ?case by simp
next
  case (Cons x xs)
  show ?case
  proof (cases "P x")
    case True
    with Cons.prems have "filter P xs = []" by simp
    then have "find P (rev xs) = None" by (auto simp: find_None_iff filter_empty_conv)
    with True show ?thesis by (simp add: find_snoc)
  next
    case False
    with Cons show ?thesis by (simp add: find_snoc split: option.splits)
  qed
qed

lemma find_append_case:
  "find P (xs @ ys) = (case find P xs of None \<Rightarrow> find P ys | Some x \<Rightarrow> Some x)"
  by (induction xs) auto

lemma status_foldl_meta_step:
  "status (foldl meta_step st ps) =
     (case the_int (rev ps) of Some i \<Rightarrow> Some i | None \<Rightarrow> status st)"
proof (induction ps rule: rev_induct)
  case Nil
  show ?case by (simp add: the_int_def)
next
  case (snoc p ps)
  then show ?case
    by (cases p) (simp_all add: meta_step_def the_int_def is_int_def)
qed

lemma headers_foldl_meta_step:
  "headers (foldl meta_step st ps) =
     (case the_dict (rev ps) of Some d \<Rightarrow> Some d | None \<Rightarrow> headers st)"
proof (induction ps rule: rev_induct)
  case Nil
  show ?case by (simp add: the_dict_def)
next
  case (snoc p ps)
  then show ?case
    by (cases p) (simp_all add: meta_step_def the_dict_def is_dict_def)
qed

lemma content_type_foldl_meta_step:
  "content_type (foldl meta_step st ps) =
     (case the_str (rev ps) of Some s \<Rightarrow> Some s | None \<Rightarrow> content_type st)"
proof (induction ps rule: rev_induct)
  case Nil
  show ?case by (simp add: the_str_def)
next
  case (snoc p ps)
  then show ?case
    by (cases p) (simp_all add: meta_step_def the_str_def is_str_def)
qed

lemma find_ints:
  "list_all is_int ps \<Longrightarrow> find is_dict ps = None \<and> find is_str ps = None"
  by (induction ps) (auto simp: is_int_def is_dict_def is_str_def split: pyval.splits)

lemma the_int_all_int:
  "list_all is_int ps \<Longrightarrow> the_dict (rev ps) = None \<and> the_str (rev ps) = None"
  using find_ints [of "rev ps"] by (simp add: the_dict_def the_str_def)

lemma parts_loop_tuple:
  assumes "list_all is_int pre" and "body_shape b" and "body_converts dumps b"
    and "list_all meta_shape post"
  shows "\<exists>st. parts_loop dumps no_locals (pre @ b # post) = Inr st
           \<and> status st = (case the_int (rev post) of Some i \<Rightarrow> Some i | None \<Rightarrow> the_int (rev pre))
           \<and> headers st = the_dict (rev post)
           \<and> content_type st =
               (case the_str (rev post) of
                  Some s \<Rightarrow> Some s
                | None \<Rightarrow> if is_dict b then Some ''text/json'' else None)"
proof -
  let ?st1 = "foldl meta_step no_locals pre"
  have st1: "app_iter ?st1 = None" "text_var ?st1 = None" by (simp_all add: no_locals_def)
  have f1: "status ?st1 = the_int (rev pre)" "headers ?st1 = None" "content_type ?st1 = None"
    using the_int_all_int [OF assms(1)]
    by (simp_all add: status_foldl_meta_step headers_foldl_meta_step
          content_type_foldl_meta_step no_locals_def split: option.splits)
  obtain st2 where st2: "part_step dumps ?st1 b = Inr st2"
      "app_iter st2 \<noteq> None \<or> text_var st2 \<noteq> None"
      "status st2 = status ?st1" "headers st2 = headers ?st1"
      "content_type st2 = (if is_dict b then Some ''text/json'' else content_type ?st1)"
    using part_step_body [OF st1 assms(2,3)] by blast
  have "parts_loop dumps no_locals (pre @ b # post) = parts_loop dumps ?st1 (b # post)"
    using assms(1) by (rule parts_loop_ints)
  also have "\<dots> = parts_loop dumps st2 post" using st2(1) by simp
  also have "\<dots> = Inr (foldl meta_step st2 post)"
    using parts_loop_body_set [OF st2(2), of dumps post] assms(4) by simp
  finally have "parts_loop dumps no_locals (pre @ b # post) = Inr (foldl meta_step st2 post)" .
  moreover have "status (foldl meta_step st2 post) =
      (case the_int (rev post) of Some i \<Rightarrow> Some i | None \<Rightarrow> the_int (rev pre))"
    using st2(3) f1(1) by (simp add: status_foldl_meta_step [of st2] split: option.splits)
  moreover have "headers (foldl meta_step st2 post) = the_dict (rev post)"
    using st2(4) f1(2) by (simp add: headers_foldl_meta_step [of st2] split: option.splits)
  moreover have "content_type (foldl meta_step st2 post) =
      (case the_str (rev post) of
         Some s \<Rightarrow> Some s
       | None \<Rightarrow> if is_dict b then Some ''text/json'' else None)"
    using st2(5) f1(3) by (simp add: content_type_foldl_meta_step [of st2] split: option.splits)
  ultimately show ?thesis by blast
qed

lemma build_response_fields:
  "resp_status (build_response st) = (case status st of None \<Rightarrow> default_status | Some i \<Rightarrow> i)"
  "resp_headers (build_response st) = (case headers st of None \<Rightarrow> [] | Some hs \<Rightarrow> hs)"
  "resp_content_type (build_response st) =
     (case content_type st of
        Some ct \<Rightarrow> if ct \<noteq> [] then ct
                   else (case headers st of
                           None \<Rightarrow> default_content_type
                         | Some hs \<Rightarrow> (case implied_content_type hs of
                                         Some c \<Rightarrow> c | None \<Rightarrow> default_content_type))
      | None \<Rightarrow> (case headers st of
                   None \<Rightarrow> default_content_type
                 | Some hs \<Rightarrow> (case implied_content_type hs of
                                 Some c \<Rightarrow> c | None \<Rightarrow> default_content_type)))"
  by (simp_all add: build_response_def Response_def set_headers_def set_content_type_def
        set_text_def Let_def split: option.splits)

lemma the_int_append_unique:
  "length (filter is_int (pre @ post)) \<le> 1 \<Longrightarrow>
   (case the_int (rev post) of Some i \<Rightarrow> Some i | None \<Rightarrow> the_int (rev pre)) = the_int (pre @ post)"
proof -
  assume a: "length (filter is_int (pre @ post)) \<le> 1"
  then have "length (filter is_int pre) \<le> 1" "length (filter is_int post) \<le> 1" by simp_all
  then have r: "find is_int (rev pre) = find is_int pre" "find is_int (rev post) = find is_int post"
    by (simp_all add: find_rev_unique)
  show ?thesis
  proof (cases "find is_int pre")
    case None
    then show ?thesis
      by (auto simp: the_int_def r find_append_case is_int_def split: option.splits pyval.splits)
  next
    case (Some x)
    then have "is_int x" "x \<in> set pre" by (auto simp: find_Some_iff)
    then have "filter is_int pre \<noteq> []" by (auto simp: filter_empty_conv)
    with a have "filter is_int post = []" by (cases "filter is_int pre") auto
    then have "find is_int post = None" by (auto simp: find_None_iff filter_empty_conv)
    with Some show ?thesis
      by (simp add: the_int_def r find_append_case split: option.splits pyval.splits)
  qed
qed

text \<open>
  Claim C5, as amended. For a tuple made of at most one integer, one element of a body
  shape that converts, and after it at most one dictionary and at most one non-empty
  string (the integer may stand anywhere), \<^verbatim>\<open>makeResponse\<close> returns a response
  whose status is the integer if there is one and the default otherwise, whose headers
  are the dictionary if there is one and empty otherwise, and whose content type is the
  string if there is one; otherwise \<^verbatim>\<open>text/json\<close> if the body is a dictionary;
  otherwise the content type that the headers imply, if any; otherwise the default.
\<close>

theorem makeResponse_tuple:
  assumes "list_all is_int pre" and "body_shape b" and "body_converts dumps b"
    and "list_all meta_shape post"
    and "length (filter is_int (pre @ post)) \<le> 1"
    and "length (filter is_dict post) \<le> 1"
    and "length (filter is_str post) \<le> 1"
    and "PStr [] \<notin> set post"
  shows "\<exists>r. makeResponse dumps (PTuple (pre @ b # post)) = Inr r
           \<and> resp_status r = (case the_int (pre @ post) of Some i \<Rightarrow> i | None \<Rightarrow> default_status)
           \<and> resp_headers r = (case the_dict post of Some hs \<Rightarrow> hs | None \<Rightarrow> [])
           \<and> resp_content_type r =
               (case the_str post of
                  Some ct \<Rightarrow> ct
                | None \<Rightarrow>
                    if is_dict b then ''text/json''
                    else (case the_dict post of
                            None \<Rightarrow> default_content_type
                          | Some hs \<Rightarrow> (case implied_content_type hs of
                                          Some ct \<Rightarrow> ct
                                        | None \<Rightarrow> default_content_type)))"
proof -
  obtain st where st: "parts_loop dumps no_locals (pre @ b # post) = Inr st"
      "status st = (case the_int (rev post) of Some i \<Rightarrow> Some i | None \<Rightarrow> the_int (rev pre))"
      "headers st = the_dict (rev post)"
      "content_type st =
               (case the_str (rev post) of
                  Some s \<Rightarrow> Some s
                | None \<Rightarrow> if is_dict b then Some ''text/json'' else None)"
    using parts_loop_tuple [OF assms(1-4)] by blast
  have s: "status st = the_int (pre @ post)"
    using the_int_append_unique [OF assms(5)] st(2) by simp
  have h: "headers st = the_dict post"
    using assms(6) by (simp add: st(3) the_dict_def find_rev_unique)
  have c: "content_type st =
             (case the_str post of
                Some s \<Rightarrow> Some s
              | None \<Rightarrow> if is_dict b then Some ''text/json'' else None)"
    using assms(7) by (simp add: st(4) the_str_def find_rev_unique)
  have ne: "the_str post \<noteq> Some []"
  proof
    assume "the_str post = Some []"
    then have "find is_str post = Some (PStr [])"
      by (auto simp: the_str_def split: option.splits pyval.splits)
    then have "PStr [] \<in> set post" by (auto simp: find_Some_iff)
    with assms(8) show False by simp
  qed
  have "makeResponse dumps (PTuple (pre @ b # post)) = Inr (build_response st)"
    by (simp add: makeResponse_def st(1))
  moreover have "resp_status (build_response st) =
      (case the_int (pre @ post) of Some i \<Rightarrow> i | None \<Rightarrow> default_status)"
    by (simp add: build_response_fields s split: option.splits)
  moreover have "resp_headers (build_response st) =
      (case the_dict post of Some hs \<Rightarrow> hs | None \<Rightarrow> [])"
    by (simp add: build_response_fields h split: option.splits)
  moreover have "resp_content_type (build_response st) =
               (case the_str post of
                  Some ct \<Rightarrow> ct
                | None \<Rightarrow>
                    if is_dict b then ''text/json''
                    else (case the_dict post of
                            None \<Rightarrow> default_content_type
                          | Some hs \<Rightarrow> (case implied_content_type hs of
                                          Some ct \<Rightarrow> ct
                                        | None \<Rightarrow> default_content_type)))"
    using ne by (simp add: build_response_fields c h split: option.splits)
  ultimately show ?thesis by blast
qed


theorem makeResponse_tuple_witness:
  "list_all is_int [PInt 201] \<and> body_shape (PBytes ''x'') \<and> body_converts dumps_any (PBytes ''x'')
   \<and> list_all meta_shape [PDict [(''Content-Type'', JStr ''text/plain'')], PStr ''text/csv'']
   \<and> (\<exists>r. makeResponse dumps_any
              (PTuple [PInt 201, PBytes ''x'',
                       PDict [(''Content-Type'', JStr ''text/plain'')], PStr ''text/csv'']) = Inr r
          \<and> resp_status r = 201
          \<and> resp_headers r = [(''Content-Type'', JStr ''text/plain'')]
          \<and> resp_content_type r = ''text/csv'')
   \<and> (\<exists>r. makeResponse dumps_any
              (PTuple [PBytes ''x'', PDict [(''Content-Type'', JStr ''text/plain'')]]) = Inr r
          \<and> resp_status r = default_status
          \<and> resp_headers r = [(''Content-Type'', JStr ''text/plain'')]
          \<and> resp_content_type r = ''text/plain'')"
  using makeResponse_tuple [of "[PInt 201]" "PBytes ''x''" dumps_any
      "[PDict [(''Content-Type'', JStr ''text/plain'')], PStr ''text/csv'']"]
    makeResponse_tuple [of "[]" "PBytes ''x''" dumps_any
      "[PDict [(''Content-Type'', JStr ''text/plain'')]]"]
  by (simp add: is_int_def is_dict_def is_str_def body_shape_def body_converts_def meta_shape_def
      the_int_def the_dict_def the_str_def implied_content_type_def)

text \<open>
  The claim as stated fails: a string before the body is taken for the body and the
  tuple is refused; the content type of a dictionary body wins over the one implied by
  the headers; an empty string is not applied as the content type.
\<close>

theorem makeResponse_tuple_counterexample:
  "makeResponse dumps_any (PTuple [PStr ''text/plain'', PBytes ''data'']) = Inl ValueError
   \<and> makeResponse dumps_any
        (PTuple [PDict [(''a'', JInt 1)], PDict [(''Content-Type'', JStr ''text/plain'')]]) =
       Inr \<lparr>resp_status = 200, resp_content_type = ''text/json'',
            resp_headers = [(''Content-Type'', JStr ''text/plain'')],
            resp_body = Chunks [''{}'']\<rparr>
   \<and> makeResponse dumps_any (PTuple [PBytes ''x'', PStr []]) =
       Inr \<lparr>resp_status = 200, resp_content_type = ''text/html'', resp_headers = [],
            resp_body = Chunks [''x'']\<rparr>"
  by (simp add: makeResponse_def part_step_def classify_def no_locals_def build_response_def
      Response_def default_status_def default_content_type_def set_content_type_def
      set_headers_def implied_content_type_def dumps_any_def)

subsection \<open>Teardown\<close>











lemma ref_at_App [simp]: "ref_at (h\<lparr>App := v\<rparr>) = ref_at h"
  by (rule ext) (simp add: ref_at_def)

lemma ref_at_mark [simp]: "ref_at (h\<lparr>BeingDestroyed := b\<rparr>) = ref_at h"
  by (rule ext) (simp add: ref_at_def instance_dict_def)

























end
